theory Spec2Isabelle
  imports Main "HOL-Library.Sublist" "HOL-Library.Product_Lexorder"
begin

section \<open>The query catalog\<close>

text \<open>
  \<^verbatim>\<open>SQL_QUERIES\<close> of \<^verbatim>\<open>app.py\<close> is a dictionary literal from report names to SQL
  texts. A Python dictionary keeps its insertion order, and the selection menu shows
  \<^verbatim>\<open>list(SQL_QUERIES.keys())\<close>, so the catalog is an association list here, in the order
  of the source. The triple-quoted statements are kept character for character, with
  their line breaks and indentation and with the remarks that follow a \<^verbatim>\<open>#\<close> inside
  the quotes: those remarks are part of the string that is handed to the engine.
\<close>

definition SQL_QUERIES :: "(string \<times> string) list" where
  "SQL_QUERIES = [
    (''Total Students'',
       ''SELECT COUNT(*) FROM Students;''),
    (''Average Age of Students'',
       ''SELECT AVG(age) FROM Students;''),
    (''Students by Course Batch'',
       ''SELECT course_batch, COUNT(*) AS count FROM Students GROUP BY course_batch ORDER BY count DESC;''),
    (''Average Programming Problems Solved'',
       ''\<newline>'' @
       ''        SELECT AVG(P.problem_solved)\<newline>'' @
       ''        FROM Programming P;\<newline>'' @
       ''    ''),
    (''Top 5 Students by Latest Project Score'',
       ''\<newline>'' @
       ''        SELECT S.name, P.latest_project_score\<newline>'' @
       ''        FROM Students S\<newline>'' @
       ''        JOIN Programming P ON S.student_id = P.student_id\<newline>'' @
       ''        ORDER BY P.latest_project_score DESC\<newline>'' @
       ''        LIMIT 5;\<newline>'' @
       ''    ''),
    (''Average Soft Skills Score (Overall)'',
       ''\<newline>'' @
       ''        SELECT AVG(\<newline>'' @
       ''            COALESCE(communication, 0) +\<newline>'' @
       ''            COALESCE(team_work, 0) +\<newline>'' @
       ''            COALESCE(presentation, 0) +\<newline>'' @
       ''            COALESCE(leadership, 0) +\<newline>'' @
       ''            COALESCE(Critical_thinking, 0) +\<newline>'' @
       ''            COALESCE(interpersonal_skill, 0)\<newline>'' @
       ''        ) / 6 AS avg_soft_skills_score\<newline>'' @
       ''        FROM SoftSkills;\<newline>'' @
       ''    ''),
    (''Students with Internship Completed'',
       ''\<newline>'' @
       ''        SELECT S.name, S.course_batch\<newline>'' @
       ''        FROM Students S\<newline>'' @
       ''        JOIN Placements PL ON S.student_id = PL.student_id\<newline>'' @
       ''        WHERE PL.internship_complted = 'yes';\<newline>'' @
       ''    ''),
    (''Distribution of Mock Interview Scores'',
       ''\<newline>'' @
       ''        SELECT\<newline>'' @
       ''            CASE # SQL's CASE statement allows defining categories based on score ranges\<newline>'' @
       ''                WHEN mock_interview_score BETWEEN 0 AND 49 THEN '0-49 (Poor)'\<newline>'' @
       ''                WHEN mock_interview_score BETWEEN 50 AND 69 THEN '50-69 (Average)'\<newline>'' @
       ''                WHEN mock_interview_score BETWEEN 70 AND 89 THEN '70-89 (Good)'\<newline>'' @
       ''                WHEN mock_interview_score BETWEEN 90 AND 100 THEN '90-100 (Excellent)'\<newline>'' @
       ''                ELSE 'N/A'\<newline>'' @
       ''            END AS score_range,\<newline>'' @
       ''            COUNT(*) AS num_students\<newline>'' @
       ''        FROM Placements\<newline>'' @
       ''        GROUP BY score_range # Group results by the defined score ranges\<newline>'' @
       ''        ORDER BY score_range;\<newline>'' @
       ''    ''),
    (''Students Ready for Placement'',
       ''\<newline>'' @
       ''        SELECT S.name, S.course_batch, PL.mock_interview_score, PL.Placement_status, PL.Company_name\<newline>'' @
       ''        FROM Students S\<newline>'' @
       ''        JOIN Placements PL ON S.student_id = PL.student_id\<newline>'' @
       ''        WHERE PL.Placement_status = 'Ready' OR PL.Placement_status = 'Placed';\<newline>'' @
       ''    ''),
    (''Average Placement Package by Batch'',
       ''\<newline>'' @
       ''        SELECT S.course_batch, AVG(PL.placement_package) AS avg_package\<newline>'' @
       ''        FROM Students S\<newline>'' @
       ''        JOIN Placements PL ON S.student_id = PL.student_id\<newline>'' @
       ''        WHERE PL.Placement_status = 'Placed'\<newline>'' @
       ''        GROUP BY S.course_batch\<newline>'' @
       ''        ORDER BY avg_package DESC;\<newline>'' @
       ''    ''),
    (''Students with High Mock Interview Scores and Placement Status'',
       ''\<newline>'' @
       ''        SELECT\<newline>'' @
       ''            S.name,\<newline>'' @
       ''            S.course_batch,\<newline>'' @
       ''            PL.mock_interview_score,\<newline>'' @
       ''            PL.Placement_status,\<newline>'' @
       ''            PL.Company_name\<newline>'' @
       ''        FROM\<newline>'' @
       ''            Students S\<newline>'' @
       ''        JOIN\<newline>'' @
       ''            Placements PL ON S.student_id = PL.student_id\<newline>'' @
       ''        WHERE\<newline>'' @
       ''            PL.Placement_status IN ('Ready', 'Placed')\<newline>'' @
       ''        ORDER BY\<newline>'' @
       ''            PL.mock_interview_score DESC;\<newline>'' @
       ''    ''),
    (''Student with Highest Placement Package'',
       ''\<newline>'' @
       ''        SELECT\<newline>'' @
       ''            S.name,\<newline>'' @
       ''            S.course_batch,\<newline>'' @
       ''            PL.Company_name,\<newline>'' @
       ''            PL.placement_package\<newline>'' @
       ''        FROM\<newline>'' @
       ''            Students S\<newline>'' @
       ''        JOIN\<newline>'' @
       ''            Placements PL ON S.student_id = PL.student_id\<newline>'' @
       ''        WHERE\<newline>'' @
       ''            PL.Placement_status = 'Placed'\<newline>'' @
       ''        ORDER BY\<newline>'' @
       ''            PL.placement_package DESC\<newline>'' @
       ''        LIMIT 1;\<newline>'' @
       ''    ''),
    (''Count Students by City'',
       ''\<newline>'' @
       ''        SELECT city, COUNT(student_id) AS NumberOfStudents\<newline>'' @
       ''        FROM Students\<newline>'' @
       ''        GROUP BY city\<newline>'' @
       ''        ORDER BY NumberOfStudents DESC;\<newline>'' @
       ''    '')
  ]"

text \<open>The menu entries, \<^verbatim>\<open>list(SQL_QUERIES.keys())\<close>.\<close>

definition report_names :: "string list" where
  "report_names = map fst SQL_QUERIES"

text \<open>\<^verbatim>\<open>SQL_QUERIES[insight_choice]\<close>: a missing key raises \<^verbatim>\<open>KeyError\<close>, here \<open>None\<close>.\<close>

definition lookup_query :: "string \<Rightarrow> string option" where
  "lookup_query name = map_of SQL_QUERIES name"

section \<open>The data the statements read\<close>

text \<open>
  The four tables are made outside \<^verbatim>\<open>app.py\<close>; the statements name the columns below.
  A column holds a value or SQL's \<^verbatim>\<open>NULL\<close> (\<open>None\<close>): the numeric columns are modelled
  with integer values, the others with character strings. The field prefixes are the
  table aliases of the statements (\<^verbatim>\<open>S\<close>, \<^verbatim>\<open>P\<close>, \<^verbatim>\<open>SS\<close>, \<^verbatim>\<open>PL\<close>).
\<close>

type_synonym sql_int = "int option"
type_synonym sql_text = "string option"

record Students_row =
  S_student_id :: sql_int
  S_name :: sql_text
  S_age :: sql_int
  S_gender :: sql_text
  S_course_batch :: sql_text
  S_city :: sql_text

record Programming_row =
  P_student_id :: sql_int
  P_problem_solved :: sql_int
  P_assesment_completed :: sql_int
  P_Mini_project :: sql_int
  P_latest_project_score :: sql_int
  P_Certification :: sql_text

record SoftSkills_row =
  SS_student_id :: sql_int
  SS_communication :: sql_int
  SS_team_work :: sql_int
  SS_presentation :: sql_int
  SS_leadership :: sql_int
  SS_Critical_thinking :: sql_int
  SS_interpersonal_skill :: sql_int

record Placements_row =
  PL_student_id :: sql_int
  PL_mock_interview_score :: sql_int
  PL_internship_complted :: sql_text
  PL_Placement_status :: sql_text
  PL_Company_name :: sql_text
  PL_placement_package :: sql_int

record database =
  Students :: "Students_row list"
  Programming :: "Programming_row list"
  SoftSkills :: "SoftSkills_row list"
  Placements :: "Placements_row list"

text \<open>
  A comparison with \<^verbatim>\<open>NULL\<close> is \<^verbatim>\<open>NULL\<close>, and \<^verbatim>\<open>WHERE\<close> and \<^verbatim>\<open>ON\<close> keep a row only when
  their condition is true. A conjunction is true exactly when every conjunct is, so each
  comparison is modelled by "it evaluates to true".
\<close>

definition sql_eq :: "sql_int \<Rightarrow> sql_int \<Rightarrow> bool" where
  "sql_eq a b = (case a of None \<Rightarrow> False | Some x \<Rightarrow> (case b of None \<Rightarrow> False | Some y \<Rightarrow> x = y))"

definition sql_ge :: "sql_int \<Rightarrow> int \<Rightarrow> bool" where
  "sql_ge a t = (case a of None \<Rightarrow> False | Some x \<Rightarrow> t \<le> x)"

definition sql_text_eq :: "sql_text \<Rightarrow> string \<Rightarrow> bool" where
  "sql_text_eq a s = (case a of None \<Rightarrow> False | Some x \<Rightarrow> x = s)"

section \<open>The Filter Students page\<close>

subsection \<open>The thirteen inputs\<close>

text \<open>
  The eleven \<^verbatim>\<open>st.slider\<close> values and the two \<^verbatim>\<open>st.checkbox\<close> values that the page
  reads into local variables, under the names of those variables.
\<close>

record criteria =
  min_problem_solved :: int
  min_assesment_completed :: int
  min_mini_project :: int
  min_latest_project_score :: int
  required_certification :: bool
  min_communication :: int
  min_team_work :: int
  min_presentation :: int
  min_leadership :: int
  min_critical_thinking :: int
  min_interpersonal_skill :: int
  min_mock_interview_score :: int
  required_internship :: bool

subsection \<open>The statement text\<close>

text \<open>
  An f-string formats an \<^verbatim>\<open>int\<close> as \<^verbatim>\<open>str\<close> does: decimal digits, most significant
  first, after a minus sign when the number is negative.
\<close>

definition digit :: "nat \<Rightarrow> char" where
  "digit n = ''0123456789'' ! n"

fun digits_of :: "nat \<Rightarrow> string" where
  "digits_of n =
     (if n < 10 then [digit n]
      else digits_of (n div 10) @ [digit (n mod 10)])"

declare digits_of.simps [simp del]

definition format_int :: "int \<Rightarrow> string" where
  "format_int i = (if i < 0 then CHR ''-'' # digits_of (nat (- i)) else digits_of (nat i))"

text \<open>
  \<^verbatim>\<open>eligibility_query\<close>, the f-string of lines 225 to 268, piece by piece: the literal
  text one source line at a time, and the thirteen replacement fields where they stand.
  The text before \<^verbatim>\<open>FROM\<close> (lines 225 to 248) has no replacement field; it gets a name.
\<close>

definition select_clause :: string where
  "select_clause =
     ''\<newline>'' @
     ''        SELECT\<newline>'' @
     ''            S.student_id,\<newline>'' @
     ''            S.name,\<newline>'' @
     ''            S.age,\<newline>'' @
     ''            S.gender,\<newline>'' @
     ''            S.course_batch,\<newline>'' @
     ''            S.city,\<newline>'' @
     ''            P.problem_solved,\<newline>'' @
     ''            P.assesment_completed,\<newline>'' @
     ''            P.Mini_project,\<newline>'' @
     ''            P.latest_project_score,\<newline>'' @
     ''            P.Certification,\<newline>'' @
     ''            SS.communication,\<newline>'' @
     ''            SS.team_work,\<newline>'' @
     ''            SS.presentation,\<newline>'' @
     ''            SS.leadership,\<newline>'' @
     ''            SS.Critical_thinking,\<newline>'' @
     ''            SS.interpersonal_skill,\<newline>'' @
     ''            PL.mock_interview_score,\<newline>'' @
     ''            PL.internship_complted,\<newline>'' @
     ''            PL.Placement_status,\<newline>'' @
     ''            PL.Company_name,\<newline>'' @
     ''            PL.placement_package\<newline>''"

definition eligibility_query :: "criteria \<Rightarrow> string" where
  \<open>eligibility_query c =
     select_clause @
     ''        FROM Students S\<newline>'' @
     ''        JOIN Programming P ON S.student_id = P.student_id\<newline>'' @
     ''        JOIN SoftSkills SS ON S.student_id = SS.student_id\<newline>'' @
     ''        JOIN Placements PL ON S.student_id = PL.student_id\<newline>'' @
     ''        WHERE\<newline>'' @
     ''            P.problem_solved >= '' @
     format_int (min_problem_solved c) @
     '' AND\<newline>'' @
     ''            P.assesment_completed >= '' @
     format_int (min_assesment_completed c) @
     '' AND\<newline>'' @
     ''            P.Mini_project >= '' @
     format_int (min_mini_project c) @
     '' AND\<newline>'' @
     ''            P.latest_project_score >= '' @
     format_int (min_latest_project_score c) @
     '' AND\<newline>'' @
     ''            SS.communication >= '' @
     format_int (min_communication c) @
     '' AND\<newline>'' @
     ''            SS.team_work >= '' @
     format_int (min_team_work c) @
     '' AND\<newline>'' @
     ''            SS.presentation >= '' @
     format_int (min_presentation c) @
     '' AND\<newline>'' @
     ''            SS.leadership >= '' @
     format_int (min_leadership c) @
     '' AND\<newline>'' @
     ''            SS.Critical_thinking >= '' @
     format_int (min_critical_thinking c) @
     '' AND\<newline>'' @
     ''            SS.interpersonal_skill >= '' @
     format_int (min_interpersonal_skill c) @
     '' AND\<newline>'' @
     ''            PL.mock_interview_score >= '' @
     format_int (min_mock_interview_score c) @
     ''\<newline>'' @
     ''            '' @
     (if required_certification c then ''AND P.Certification = "Yes"'' else '''') @
     ''\<newline>'' @
     ''            '' @
     (if required_internship c then ''AND PL.internship_complted = "yes"'' else '''') @
     ''\<newline>'' @
     ''        ORDER BY PL.mock_interview_score DESC, P.latest_project_score DESC\<newline>'' @
     ''    ''\<close>

subsection \<open>What the statement selects\<close>

text \<open>
  The statement is read clause by clause. \<^verbatim>\<open>FROM ... JOIN ... ON\<close>: the inner join of
  the four tables on \<^verbatim>\<open>student_id\<close>.
\<close>

type_synonym joined_row = "Students_row \<times> Programming_row \<times> SoftSkills_row \<times> Placements_row"

definition from_clause :: "database \<Rightarrow> joined_row list" where
  "from_clause db =
     [(s, p, ss, pl).
        s \<leftarrow> Students db,
        p \<leftarrow> Programming db, sql_eq (S_student_id s) (P_student_id p),
        ss \<leftarrow> SoftSkills db, sql_eq (S_student_id s) (SS_student_id ss),
        pl \<leftarrow> Placements db, sql_eq (S_student_id s) (PL_student_id pl)]"

text \<open>
  \<^verbatim>\<open>WHERE\<close>: the eleven lower bounds, and the two clauses that a set flag adds. The
  clauses write their constant in double quotes; no column of the four tables is named
  \<^verbatim>\<open>Yes\<close> or \<^verbatim>\<open>yes\<close>, and SQLite then reads such a token as the string. Strings compare
  character by character, upper and lower case apart.
\<close>

fun where_clause :: "criteria \<Rightarrow> joined_row \<Rightarrow> bool" where
  "where_clause c (s, p, ss, pl) =
     (sql_ge (P_problem_solved p) (min_problem_solved c) \<and>
      sql_ge (P_assesment_completed p) (min_assesment_completed c) \<and>
      sql_ge (P_Mini_project p) (min_mini_project c) \<and>
      sql_ge (P_latest_project_score p) (min_latest_project_score c) \<and>
      sql_ge (SS_communication ss) (min_communication c) \<and>
      sql_ge (SS_team_work ss) (min_team_work c) \<and>
      sql_ge (SS_presentation ss) (min_presentation c) \<and>
      sql_ge (SS_leadership ss) (min_leadership c) \<and>
      sql_ge (SS_Critical_thinking ss) (min_critical_thinking c) \<and>
      sql_ge (SS_interpersonal_skill ss) (min_interpersonal_skill c) \<and>
      sql_ge (PL_mock_interview_score pl) (min_mock_interview_score c) \<and>
      (if required_certification c then sql_text_eq (P_Certification p) ''Yes'' else True) \<and>
      (if required_internship c then sql_text_eq (PL_internship_complted pl) ''yes'' else True))"

text \<open>
  \<^verbatim>\<open>ORDER BY PL.mock_interview_score DESC, P.latest_project_score DESC\<close>. SQLite sorts
  \<^verbatim>\<open>NULL\<close> below every number, so a descending sort puts it last: the key of a value is
  \<open>(0, - x)\<close> for a number \<open>x\<close> and \<open>(1, 0)\<close> for \<^verbatim>\<open>NULL\<close>, compared lexicographically.
  SQL leaves the order of rows with equal keys open; the stable sort keeps them in the
  order of the join.
\<close>

definition desc :: "sql_int \<Rightarrow> nat \<times> int" where
  "desc a = (case a of None \<Rightarrow> (1, 0) | Some x \<Rightarrow> (0, - x))"

fun order_key :: "joined_row \<Rightarrow> (nat \<times> int) \<times> (nat \<times> int)" where
  "order_key (s, p, ss, pl) = (desc (PL_mock_interview_score pl), desc (P_latest_project_score p))"

definition order_by :: "joined_row list \<Rightarrow> joined_row list" where
  "order_by rows = sort_key order_key rows"

text \<open>\<^verbatim>\<open>SELECT\<close>: the twenty-two columns of a result row, in the order of the statement.\<close>

record result_row =
  student_id :: sql_int
  name :: sql_text
  age :: sql_int
  gender :: sql_text
  course_batch :: sql_text
  city :: sql_text
  problem_solved :: sql_int
  assesment_completed :: sql_int
  Mini_project :: sql_int
  latest_project_score :: sql_int
  Certification :: sql_text
  communication :: sql_int
  team_work :: sql_int
  presentation :: sql_int
  leadership :: sql_int
  Critical_thinking :: sql_int
  interpersonal_skill :: sql_int
  mock_interview_score :: sql_int
  internship_complted :: sql_text
  Placement_status :: sql_text
  Company_name :: sql_text
  placement_package :: sql_int

fun select_columns :: "joined_row \<Rightarrow> result_row" where
  "select_columns (s, p, ss, pl) =
     \<lparr>student_id = S_student_id s,
      name = S_name s,
      age = S_age s,
      gender = S_gender s,
      course_batch = S_course_batch s,
      city = S_city s,
      problem_solved = P_problem_solved p,
      assesment_completed = P_assesment_completed p,
      Mini_project = P_Mini_project p,
      latest_project_score = P_latest_project_score p,
      Certification = P_Certification p,
      communication = SS_communication ss,
      team_work = SS_team_work ss,
      presentation = SS_presentation ss,
      leadership = SS_leadership ss,
      Critical_thinking = SS_Critical_thinking ss,
      interpersonal_skill = SS_interpersonal_skill ss,
      mock_interview_score = PL_mock_interview_score pl,
      internship_complted = PL_internship_complted pl,
      Placement_status = PL_Placement_status pl,
      Company_name = PL_Company_name pl,
      placement_package = PL_placement_package pl\<rparr>"

text \<open>The rows that the statement built from \<open>c\<close> returns on the database \<open>db\<close>.\<close>

definition eligible_students :: "database \<Rightarrow> criteria \<Rightarrow> result_row list" where
  "eligible_students db c = map select_columns (order_by (filter (where_clause c) (from_clause db)))"

subsection \<open>The widgets\<close>

text \<open>
  \<^verbatim>\<open>st.slider(label, min_value, max_value, value)\<close> offers the integers from
  \<^verbatim>\<open>min_value\<close> to \<^verbatim>\<open>max_value\<close> and starts at \<^verbatim>\<open>value\<close>;
  \<^verbatim>\<open>st.checkbox(label, value=...)\<close> starts at \<^verbatim>\<open>value\<close>. Each widget is named after the
  variable that receives it (lines 200 to 217).
\<close>

record slider =
  label :: string
  min_value :: int
  max_value :: int
  initial_value :: int

record checkbox =
  checkbox_label :: string
  checkbox_value :: bool

definition slider_min_problem_solved :: slider where
  "slider_min_problem_solved =
     \<lparr>label = ''Minimum Problems Solved'', min_value = 0, max_value = 50, initial_value = 20\<rparr>"

definition slider_min_assesment_completed :: slider where
  "slider_min_assesment_completed =
     \<lparr>label = ''Minimum Assessments Completed'', min_value = 0, max_value = 10, initial_value = 3\<rparr>"

definition slider_min_mini_project :: slider where
  "slider_min_mini_project =
     \<lparr>label = ''Minimum Mini Projects'', min_value = 0, max_value = 5, initial_value = 1\<rparr>"

definition slider_min_latest_project_score :: slider where
  "slider_min_latest_project_score =
     \<lparr>label = ''Minimum Latest Project Score'', min_value = 0, max_value = 100, initial_value = 60\<rparr>"

definition checkbox_required_certification :: checkbox where
  "checkbox_required_certification =
     \<lparr>checkbox_label = ''Certification Required'', checkbox_value = False\<rparr>"

definition slider_min_communication :: slider where
  "slider_min_communication =
     \<lparr>label = ''Minimum Communication Score'', min_value = 0, max_value = 100, initial_value = 65\<rparr>"

definition slider_min_team_work :: slider where
  "slider_min_team_work =
     \<lparr>label = ''Minimum Team Work Score'', min_value = 0, max_value = 50, initial_value = 25\<rparr>"

definition slider_min_presentation :: slider where
  "slider_min_presentation =
     \<lparr>label = ''Minimum Presentation Score'', min_value = 0, max_value = 10, initial_value = 5\<rparr>"

definition slider_min_leadership :: slider where
  "slider_min_leadership =
     \<lparr>label = ''Minimum Leadership Score'', min_value = 0, max_value = 5, initial_value = 2\<rparr>"

definition slider_min_critical_thinking :: slider where
  "slider_min_critical_thinking =
     \<lparr>label = ''Minimum Critical Thinking Score'', min_value = 0, max_value = 5, initial_value = 2\<rparr>"

definition slider_min_interpersonal_skill :: slider where
  "slider_min_interpersonal_skill =
     \<lparr>label = ''Minimum Interpersonal Skill Score'', min_value = 0, max_value = 100, initial_value = 60\<rparr>"

definition slider_min_mock_interview_score :: slider where
  "slider_min_mock_interview_score =
     \<lparr>label = ''Minimum Mock Interview Score'', min_value = 0, max_value = 100, initial_value = 70\<rparr>"

definition checkbox_required_internship :: checkbox where
  "checkbox_required_internship =
     \<lparr>checkbox_label = ''Internship Completed (Yes)'', checkbox_value = True\<rparr>"

text \<open>The eleven sliders in the order of the page.\<close>

definition threshold_sliders :: "slider list" where
  "threshold_sliders =
     [slider_min_problem_solved, slider_min_assesment_completed, slider_min_mini_project,
      slider_min_latest_project_score, slider_min_communication, slider_min_team_work,
      slider_min_presentation, slider_min_leadership, slider_min_critical_thinking,
      slider_min_interpersonal_skill, slider_min_mock_interview_score]"

text \<open>The values a slider can hand to the script.\<close>

definition offers :: "slider \<Rightarrow> int \<Rightarrow> bool" where
  "offers w v \<longleftrightarrow> min_value w \<le> v \<and> v \<le> max_value w"

text \<open>What the page reads before the user has touched a widget.\<close>

definition initial_criteria :: criteria where
  "initial_criteria =
     \<lparr>min_problem_solved = initial_value slider_min_problem_solved,
      min_assesment_completed = initial_value slider_min_assesment_completed,
      min_mini_project = initial_value slider_min_mini_project,
      min_latest_project_score = initial_value slider_min_latest_project_score,
      required_certification = checkbox_value checkbox_required_certification,
      min_communication = initial_value slider_min_communication,
      min_team_work = initial_value slider_min_team_work,
      min_presentation = initial_value slider_min_presentation,
      min_leadership = initial_value slider_min_leadership,
      min_critical_thinking = initial_value slider_min_critical_thinking,
      min_interpersonal_skill = initial_value slider_min_interpersonal_skill,
      min_mock_interview_score = initial_value slider_min_mock_interview_score,
      required_internship = checkbox_value checkbox_required_internship\<rparr>"

subsection \<open>Reading the statement text\<close>

text \<open>
  To speak about the text of a statement: the pieces between two keywords, the items of
  a comma-separated list without the blanks around them, and the column an item names
  (the part after the table alias). The engine names the columns of a result so.
\<close>

fun after_kw :: "string \<Rightarrow> string \<Rightarrow> string" where
  "after_kw kw [] = []"
| "after_kw kw (x # xs) = (if prefix kw (x # xs) then drop (length kw) (x # xs) else after_kw kw xs)"

fun before_kw :: "string \<Rightarrow> string \<Rightarrow> string" where
  "before_kw kw [] = []"
| "before_kw kw (x # xs) = (if prefix kw (x # xs) then [] else x # before_kw kw xs)"

fun split_on :: "char \<Rightarrow> string \<Rightarrow> string list" where
  "split_on sep [] = [[]]"
| "split_on sep (x # xs) =
     (if x = sep then [] # split_on sep xs
      else (case split_on sep xs of [] \<Rightarrow> [[x]] | w # ws \<Rightarrow> (x # w) # ws))"

definition blank :: "char \<Rightarrow> bool" where
  "blank x \<longleftrightarrow> x = CHR '' '' \<or> x = CHR ''\<newline>''"

definition trim :: "string \<Rightarrow> string" where
  "trim s = rev (dropWhile blank (rev (dropWhile blank s)))"

definition column_name :: "string \<Rightarrow> string" where
  "column_name item =
     (if CHR ''.'' \<in> set item then tl (dropWhile (\<lambda>x. x \<noteq> CHR ''.'') item) else item)"

definition select_list :: "string \<Rightarrow> string list" where
  "select_list stmt =
     map (column_name \<circ> trim) (split_on CHR '','' (before_kw ''FROM'' (after_kw ''SELECT'' stmt)))"

text \<open>Two neighbouring characters somewhere in a text.\<close>

fun has_pair :: "char \<Rightarrow> char \<Rightarrow> string \<Rightarrow> bool" where
  "has_pair a b [] = False"
| "has_pair a b [x] = False"
| "has_pair a b (x # y # zs) = ((x = a \<and> y = b) \<or> has_pair a b (y # zs))"

text \<open>The two optional clauses, as line 265 and line 266 write them.\<close>

definition certification_clause :: string where
  \<open>certification_clause = ''AND P.Certification = "Yes"''\<close>

definition internship_clause :: string where
  \<open>internship_clause = ''AND PL.internship_complted = "yes"''\<close>

section \<open>The histogram report\<close>

text \<open>
  The \<^verbatim>\<open>CASE\<close> expression of "Distribution of Mock Interview Scores". \<^verbatim>\<open>BETWEEN\<close>
  includes both ends, and with a \<^verbatim>\<open>NULL\<close> score no \<^verbatim>\<open>WHEN\<close> is true.
\<close>

definition between :: "sql_int \<Rightarrow> int \<Rightarrow> int \<Rightarrow> bool" where
  "between a lo hi = (case a of None \<Rightarrow> False | Some x \<Rightarrow> lo \<le> x \<and> x \<le> hi)"

definition score_range :: "sql_int \<Rightarrow> string" where
  "score_range score =
     (if between score 0 49 then ''0-49 (Poor)''
      else if between score 50 69 then ''50-69 (Average)''
      else if between score 70 89 then ''70-89 (Good)''
      else if between score 90 100 then ''90-100 (Excellent)''
      else ''N/A'')"

section \<open>The query executor\<close>

text \<open>
  \<^verbatim>\<open>sqlite3\<close> and \<^verbatim>\<open>pandas\<close> are libraries, so their two entry points are parameters:
  \<^verbatim>\<open>sqlite3.connect\<close> gives a connection or raises \<^verbatim>\<open>sqlite3.Error\<close> (here its message),
  and \<^verbatim>\<open>pd.read_sql_query\<close> gives a data frame or raises. What it raises is either
  \<^verbatim>\<open>pd.io.sql.DatabaseError\<close> or another \<^verbatim>\<open>Exception\<close>; both carry their message.
\<close>

datatype raised = DatabaseError string | OtherException string

record 'v dataframe =
  columns :: "string list"
  data_rows :: "'v list list"

record ('c, 'p, 'v) backend =
  connect :: "string \<Rightarrow> string + 'c"
  read_sql_query :: "string \<Rightarrow> 'c \<Rightarrow> 'p list option \<Rightarrow> raised + 'v dataframe"

text \<open>\<^verbatim>\<open>pd.DataFrame()\<close>, and the property \<^verbatim>\<open>.empty\<close>.\<close>

definition empty_dataframe :: "'v dataframe" where
  "empty_dataframe = \<lparr>columns = [], data_rows = []\<rparr>"

definition empty :: "'v dataframe \<Rightarrow> bool" where
  "empty df \<longleftrightarrow> columns df = [] \<or> data_rows df = []"

text \<open>
  What the user sees (\<^verbatim>\<open>st.success\<close>, \<^verbatim>\<open>st.error\<close>) is a log that every call extends.
  \<^verbatim>\<open>st.stop()\<close> ends the run of the script from inside the call: the call does not return.
  The decorator \<^verbatim>\<open>st.cache_resource\<close> keeps the connection that \<^verbatim>\<open>get_connection\<close> has
  returned for the later runs of the script; the field \<^verbatim>\<open>conn\<close> stands for both.
\<close>

datatype message = StSuccess string | StError string

datatype 'a outcome = Returned 'a | Stopped

record 'c DatabaseManager =
  db_name :: string
  conn :: "'c option"

definition get_connection ::
  "('c, 'p, 'v) backend \<Rightarrow> 'c DatabaseManager \<times> message list \<Rightarrow>
     'c outcome \<times> 'c DatabaseManager \<times> message list" where
  "get_connection be st =
     (case st of (self, ui) \<Rightarrow>
        (case conn self of
           Some c \<Rightarrow> (Returned c, self, ui)
         | None \<Rightarrow>
             (case connect be (db_name self) of
                Inr c \<Rightarrow>
                  (Returned c, self\<lparr>conn := Some c\<rparr>,
                   ui @ [StSuccess (''Successfully connected to database: '' @ db_name self)])
              | Inl e \<Rightarrow>
                  (Stopped, self, ui @ [StError (''Error connecting to database: '' @ e)]))))"

text \<open>\<^verbatim>\<open>if params:\<close> holds for a parameter list that is neither \<^verbatim>\<open>None\<close> nor empty.\<close>

definition truthy :: "'p list option \<Rightarrow> bool" where
  "truthy params = (case params of None \<Rightarrow> False | Some ps \<Rightarrow> ps \<noteq> [])"

definition execute_query ::
  "('c, 'p, 'v) backend \<Rightarrow> string \<Rightarrow> 'p list option \<Rightarrow> 'c DatabaseManager \<times> message list \<Rightarrow>
     'v dataframe outcome \<times> 'c DatabaseManager \<times> message list" where
  "execute_query be query params st =
     (case get_connection be st of
        (Stopped, self, ui) \<Rightarrow> (Stopped, self, ui)
      | (Returned c, self, ui) \<Rightarrow>
          (case (if truthy params then read_sql_query be query c params
                 else read_sql_query be query c None) of
             Inr df \<Rightarrow> (Returned df, self, ui)
           | Inl (DatabaseError e) \<Rightarrow>
               (Returned empty_dataframe, self, ui @ [StError (''Error executing query: '' @ e)])
           | Inl (OtherException e) \<Rightarrow>
               (Returned empty_dataframe, self,
                ui @ [StError (''An unexpected error occurred: '' @ e)])))"

section \<open>Sample data\<close>

text \<open>
  A small database for trying the definitions: two students who pass the initial
  criteria, one whose problem count is too low and who has no internship, and one who
  has no row in \<^verbatim>\<open>SoftSkills\<close> and in \<^verbatim>\<open>Placements\<close>.
\<close>

definition sample_database :: database where
  "sample_database =
     \<lparr>Students =
        [\<lparr>S_student_id = Some 1, S_name = Some ''Asha'', S_age = Some 22, S_gender = Some ''F'',
          S_course_batch = Some ''B1'', S_city = Some ''Pune''\<rparr>,
         \<lparr>S_student_id = Some 2, S_name = Some ''Ravi'', S_age = Some 23, S_gender = Some ''M'',
          S_course_batch = Some ''B1'', S_city = Some ''Salem''\<rparr>,
         \<lparr>S_student_id = Some 3, S_name = Some ''Meena'', S_age = Some 21, S_gender = Some ''F'',
          S_course_batch = Some ''B2'', S_city = Some ''Agra''\<rparr>,
         \<lparr>S_student_id = Some 4, S_name = Some ''Kiran'', S_age = Some 24, S_gender = Some ''M'',
          S_course_batch = Some ''B2'', S_city = None\<rparr>],
      Programming =
        [\<lparr>P_student_id = Some 1, P_problem_solved = Some 30, P_assesment_completed = Some 5,
          P_Mini_project = Some 2, P_latest_project_score = Some 80, P_Certification = Some ''Yes''\<rparr>,
         \<lparr>P_student_id = Some 2, P_problem_solved = Some 25, P_assesment_completed = Some 4,
          P_Mini_project = Some 1, P_latest_project_score = Some 90, P_Certification = Some ''No''\<rparr>,
         \<lparr>P_student_id = Some 3, P_problem_solved = Some 10, P_assesment_completed = Some 6,
          P_Mini_project = Some 3, P_latest_project_score = Some 95, P_Certification = Some ''Yes''\<rparr>,
         \<lparr>P_student_id = Some 4, P_problem_solved = Some 40, P_assesment_completed = Some 9,
          P_Mini_project = Some 4, P_latest_project_score = Some 99, P_Certification = Some ''Yes''\<rparr>],
      SoftSkills =
        [\<lparr>SS_student_id = Some 1, SS_communication = Some 70, SS_team_work = Some 30,
          SS_presentation = Some 6, SS_leadership = Some 3, SS_Critical_thinking = Some 3,
          SS_interpersonal_skill = Some 65\<rparr>,
         \<lparr>SS_student_id = Some 2, SS_communication = Some 80, SS_team_work = Some 40,
          SS_presentation = Some 7, SS_leadership = Some 4, SS_Critical_thinking = Some 4,
          SS_interpersonal_skill = Some 70\<rparr>,
         \<lparr>SS_student_id = Some 3, SS_communication = Some 90, SS_team_work = Some 45,
          SS_presentation = Some 8, SS_leadership = Some 5, SS_Critical_thinking = Some 5,
          SS_interpersonal_skill = Some 90\<rparr>],
      Placements =
        [\<lparr>PL_student_id = Some 1, PL_mock_interview_score = Some 75,
          PL_internship_complted = Some ''yes'', PL_Placement_status = Some ''Ready'',
          PL_Company_name = None, PL_placement_package = None\<rparr>,
         \<lparr>PL_student_id = Some 2, PL_mock_interview_score = Some 85,
          PL_internship_complted = Some ''yes'', PL_Placement_status = Some ''Placed'',
          PL_Company_name = Some ''Acme'', PL_placement_package = Some 500000\<rparr>,
         \<lparr>PL_student_id = Some 3, PL_mock_interview_score = Some 95,
          PL_internship_complted = Some ''no'', PL_Placement_status = Some ''Ready'',
          PL_Company_name = None, PL_placement_package = None\<rparr>]\<rparr>"

definition row_asha :: result_row where
  "row_asha =
     \<lparr>student_id = Some 1, name = Some ''Asha'', age = Some 22, gender = Some ''F'',
      course_batch = Some ''B1'', city = Some ''Pune'', problem_solved = Some 30,
      assesment_completed = Some 5, Mini_project = Some 2, latest_project_score = Some 80,
      Certification = Some ''Yes'', communication = Some 70, team_work = Some 30,
      presentation = Some 6, leadership = Some 3, Critical_thinking = Some 3,
      interpersonal_skill = Some 65, mock_interview_score = Some 75,
      internship_complted = Some ''yes'', Placement_status = Some ''Ready'',
      Company_name = None, placement_package = None\<rparr>"

definition row_ravi :: result_row where
  "row_ravi =
     \<lparr>student_id = Some 2, name = Some ''Ravi'', age = Some 23, gender = Some ''M'',
      course_batch = Some ''B1'', city = Some ''Salem'', problem_solved = Some 25,
      assesment_completed = Some 4, Mini_project = Some 1, latest_project_score = Some 90,
      Certification = Some ''No'', communication = Some 80, team_work = Some 40,
      presentation = Some 7, leadership = Some 4, Critical_thinking = Some 4,
      interpersonal_skill = Some 70, mock_interview_score = Some 85,
      internship_complted = Some ''yes'', Placement_status = Some ''Placed'',
      Company_name = Some ''Acme'', placement_package = Some 500000\<rparr>"

text \<open>
  Two backends over connections that are plain numbers: on one the database file opens
  and every statement that holds a \<^verbatim>\<open>#\<close> is rejected, on the other the file does not open.
\<close>

definition sample_backend :: "(nat, int, int) backend" where
  "sample_backend =
     \<lparr>connect = (\<lambda>name. Inr 7),
      read_sql_query = (\<lambda>query c params.
         if CHR ''#'' \<in> set query then Inl (DatabaseError ''unrecognized token'')
         else Inr \<lparr>columns = [''COUNT(*)''], data_rows = [[4]]\<rparr>)\<rparr>"

definition closed_backend :: "(nat, int, int) backend" where
  "closed_backend =
     \<lparr>connect = (\<lambda>name. Inl ''unable to open database file''),
      read_sql_query = (\<lambda>query c params. Inr \<lparr>columns = [''COUNT(*)''], data_rows = [[4]]\<rparr>)\<rparr>"

definition fresh_manager :: "nat DatabaseManager \<times> message list" where
  "fresh_manager = (\<lparr>db_name = ''placement_data.db'', conn = None\<rparr>, [])"

section \<open>Properties of the filter\<close>

subsection \<open>Auxiliary facts\<close>

lemma in_from_clause:
  "(s, p, ss, pl) \<in> set (from_clause db) \<longleftrightarrow>
     s \<in> set (Students db) \<and> p \<in> set (Programming db) \<and> ss \<in> set (SoftSkills db) \<and>
     pl \<in> set (Placements db) \<and> sql_eq (S_student_id s) (P_student_id p) \<and>
     sql_eq (S_student_id s) (SS_student_id ss) \<and> sql_eq (S_student_id s) (PL_student_id pl)"
  by (auto simp: from_clause_def)

lemma set_eligible_students:
  "set (eligible_students db c) = select_columns ` {j \<in> set (from_clause db). where_clause c j}"
  by (simp add: eligible_students_def order_by_def)

lemma eligible_studentsE:
  assumes "r \<in> set (eligible_students db c)"
  obtains s p ss pl where "(s, p, ss, pl) \<in> set (from_clause db)"
    and "where_clause c (s, p, ss, pl)" and "r = select_columns (s, p, ss, pl)"
proof -
  from assms obtain j where j: "j \<in> set (from_clause db)" "where_clause c j" "r = select_columns j"
    unfolding set_eligible_students by blast
  obtain s p ss pl where "j = (s, p, ss, pl)" by (cases j) auto
  with j that show thesis by blast
qed

lemma sql_ge_mono: "sql_ge a t' \<Longrightarrow> t \<le> t' \<Longrightarrow> sql_ge a t"
  by (cases a) (auto simp: sql_ge_def)

lemma where_clause_mono:
  assumes "where_clause c' j"
    and "min_problem_solved c \<le> min_problem_solved c'"
    and "min_assesment_completed c \<le> min_assesment_completed c'"
    and "min_mini_project c \<le> min_mini_project c'"
    and "min_latest_project_score c \<le> min_latest_project_score c'"
    and "min_communication c \<le> min_communication c'"
    and "min_team_work c \<le> min_team_work c'"
    and "min_presentation c \<le> min_presentation c'"
    and "min_leadership c \<le> min_leadership c'"
    and "min_critical_thinking c \<le> min_critical_thinking c'"
    and "min_interpersonal_skill c \<le> min_interpersonal_skill c'"
    and "min_mock_interview_score c \<le> min_mock_interview_score c'"
    and "required_certification c = required_certification c'"
    and "required_internship c = required_internship c'"
  shows "where_clause c j"
proof -
  obtain s p ss pl where j: "j = (s, p, ss, pl)" by (cases j) auto
  note w = assms(1)[unfolded j where_clause.simps]
  show ?thesis
    unfolding j where_clause.simps
  proof (intro conjI)
    show "sql_ge (P_problem_solved p) (min_problem_solved c)"
      using w assms(2) by (blast intro: sql_ge_mono)
    show "sql_ge (P_assesment_completed p) (min_assesment_completed c)"
      using w assms(3) by (blast intro: sql_ge_mono)
    show "sql_ge (P_Mini_project p) (min_mini_project c)"
      using w assms(4) by (blast intro: sql_ge_mono)
    show "sql_ge (P_latest_project_score p) (min_latest_project_score c)"
      using w assms(5) by (blast intro: sql_ge_mono)
    show "sql_ge (SS_communication ss) (min_communication c)"
      using w assms(6) by (blast intro: sql_ge_mono)
    show "sql_ge (SS_team_work ss) (min_team_work c)"
      using w assms(7) by (blast intro: sql_ge_mono)
    show "sql_ge (SS_presentation ss) (min_presentation c)"
      using w assms(8) by (blast intro: sql_ge_mono)
    show "sql_ge (SS_leadership ss) (min_leadership c)"
      using w assms(9) by (blast intro: sql_ge_mono)
    show "sql_ge (SS_Critical_thinking ss) (min_critical_thinking c)"
      using w assms(10) by (blast intro: sql_ge_mono)
    show "sql_ge (SS_interpersonal_skill ss) (min_interpersonal_skill c)"
      using w assms(11) by (blast intro: sql_ge_mono)
    show "sql_ge (PL_mock_interview_score pl) (min_mock_interview_score c)"
      using w assms(12) by (blast intro: sql_ge_mono)
    show "if required_certification c then sql_text_eq (P_Certification p) ''Yes'' else True"
      using w assms(13) by simp
    show "if required_internship c then sql_text_eq (PL_internship_complted pl) ''yes'' else True"
      using w assms(14) by simp
  qed
qed

lemma eligible_students_mono:
  assumes "min_problem_solved c \<le> min_problem_solved c'"
    and "min_assesment_completed c \<le> min_assesment_completed c'"
    and "min_mini_project c \<le> min_mini_project c'"
    and "min_latest_project_score c \<le> min_latest_project_score c'"
    and "min_communication c \<le> min_communication c'"
    and "min_team_work c \<le> min_team_work c'"
    and "min_presentation c \<le> min_presentation c'"
    and "min_leadership c \<le> min_leadership c'"
    and "min_critical_thinking c \<le> min_critical_thinking c'"
    and "min_interpersonal_skill c \<le> min_interpersonal_skill c'"
    and "min_mock_interview_score c \<le> min_mock_interview_score c'"
    and "required_certification c = required_certification c'"
    and "required_internship c = required_internship c'"
  shows "set (eligible_students db c') \<subseteq> set (eligible_students db c)"
proof -
  have "where_clause c j" if "where_clause c' j" for j
    using that assms by (rule where_clause_mono)
  then show ?thesis unfolding set_eligible_students by blast
qed

lemma sorted_order_by: "sorted (map order_key (order_by rows))"
  by (simp add: order_by_def)

lemma internship_of_result:
  assumes "r \<in> set (eligible_students db c)" and "required_internship c"
  shows "internship_complted r = Some ''yes''"
proof -
  from assms(1) obtain s p ss pl
    where w: "where_clause c (s, p, ss, pl)" and r: "r = select_columns (s, p, ss, pl)"
    by (rule eligible_studentsE)
  from w assms(2) have "sql_text_eq (PL_internship_complted pl) ''yes''" by simp
  then show ?thesis
    unfolding r by (cases "PL_internship_complted pl") (simp_all add: sql_text_eq_def)
qed

lemma certification_of_result:
  assumes "r \<in> set (eligible_students db c)" and "required_certification c"
  shows "Certification r = Some ''Yes''"
proof -
  from assms(1) obtain s p ss pl
    where w: "where_clause c (s, p, ss, pl)" and r: "r = select_columns (s, p, ss, pl)"
    by (rule eligible_studentsE)
  from w assms(2) have "sql_text_eq (P_Certification p) ''Yes''" by simp
  then show ?thesis
    unfolding r by (cases "P_Certification p") (simp_all add: sql_text_eq_def)
qed

subsection \<open>Auxiliary facts about texts\<close>

lemma prefix_append_long:
  assumes "length kw \<le> length xs"
  shows "prefix kw (xs @ ys) \<longleftrightarrow> prefix kw xs"
proof
  assume "prefix kw (xs @ ys)"
  then have "prefix kw xs \<or> (\<exists>us. kw = xs @ us \<and> prefix us ys)" by (simp add: prefix_append)
  then show "prefix kw xs"
  proof
    assume "\<exists>us. kw = xs @ us \<and> prefix us ys"
    then obtain us where "kw = xs @ us" by blast
    with assms have "us = []" by simp
    with \<open>kw = xs @ us\<close> show ?thesis by simp
  qed
next
  assume "prefix kw xs"
  then show "prefix kw (xs @ ys)" by (rule prefix_prefix)
qed

lemma after_kw_append: "sublist kw xs \<Longrightarrow> after_kw kw (xs @ ys) = after_kw kw xs @ ys"
proof (induction xs)
  case Nil
  then show ?case by (cases ys) simp_all
next
  case (Cons x xs)
  have len: "length kw \<le> length (x # xs)" using Cons.prems by (rule sublist_length_le)
  have p: "prefix kw ((x # xs) @ ys) \<longleftrightarrow> prefix kw (x # xs)" using len by (rule prefix_append_long)
  show ?case
  proof (cases "prefix kw (x # xs)")
    case True
    have "drop (length kw) ((x # xs) @ ys) = drop (length kw) (x # xs) @ ys"
      using len by (simp only: drop_append) simp
    then show ?thesis using True p by simp
  next
    case False
    with Cons.prems have "sublist kw xs" by (simp add: sublist_Cons_right)
    then have "after_kw kw (xs @ ys) = after_kw kw xs @ ys" by (rule Cons.IH)
    then show ?thesis using False p by simp
  qed
qed

lemma before_kw_append: "sublist kw xs \<Longrightarrow> before_kw kw (xs @ ys) = before_kw kw xs"
proof (induction xs)
  case Nil
  then show ?case by (cases ys) simp_all
next
  case (Cons x xs)
  have len: "length kw \<le> length (x # xs)" using Cons.prems by (rule sublist_length_le)
  have p: "prefix kw ((x # xs) @ ys) \<longleftrightarrow> prefix kw (x # xs)" using len by (rule prefix_append_long)
  show ?case
  proof (cases "prefix kw (x # xs)")
    case True
    then show ?thesis using p by simp
  next
    case False
    with Cons.prems have "sublist kw xs" by (simp add: sublist_Cons_right)
    then have "before_kw kw (xs @ ys) = before_kw kw xs" by (rule Cons.IH)
    then show ?thesis using False p by simp
  qed
qed

lemma select_list_cut:
  assumes "sublist ''SELECT'' xs"
  shows "select_list (xs @ ys @ ''FROM'' @ zs) = select_list (xs @ ys @ ''FROM'')"
proof -
  have s: "sublist ''FROM'' (after_kw ''SELECT'' xs @ ys @ ''FROM'')"
    by (simp only: append_assoc[symmetric]) (rule sublist_append_leftI)
  have "after_kw ''SELECT'' (xs @ ys @ ''FROM'' @ zs) = (after_kw ''SELECT'' xs @ ys @ ''FROM'') @ zs"
    using after_kw_append[OF assms] by (simp only: append_assoc)
  moreover have "after_kw ''SELECT'' (xs @ ys @ ''FROM'') = after_kw ''SELECT'' xs @ ys @ ''FROM''"
    using after_kw_append[OF assms] by (simp only: append_assoc)
  ultimately show ?thesis
    unfolding select_list_def using before_kw_append[OF s] by (simp only:)
qed

lemma select_in_select_clause: "sublist ''SELECT'' select_clause"
proof -
  have "\<exists>ss. select_clause = ''\<newline>        '' @ ''SELECT'' @ ss"
    unfolding select_clause_def by simp
  then show ?thesis unfolding sublist_def by blast
qed

lemma has_pair_absent: "a \<notin> set xs \<Longrightarrow> \<not> has_pair a b xs"
  by (induction a b xs rule: has_pair.induct) auto

lemma has_pair_append:
  "has_pair a b (xs @ ys) \<longleftrightarrow>
     has_pair a b xs \<or> has_pair a b ys \<or> (xs \<noteq> [] \<and> ys \<noteq> [] \<and> last xs = a \<and> hd ys = b)"
proof (induction a b xs rule: has_pair.induct)
  case (1 a b)
  then show ?case by simp
next
  case (2 a b x)
  then show ?case by (cases ys) auto
next
  case (3 a b x y zs)
  then show ?case by auto
qed

lemma has_pair_sublist: "sublist xs ys \<Longrightarrow> has_pair a b xs \<Longrightarrow> has_pair a b ys"
  by (auto simp: sublist_def has_pair_append)

lemma has_pair_skip:
  assumes "d \<noteq> []" "a \<notin> set d" "b \<notin> set d"
  shows "has_pair a b (x # d @ ys) = has_pair a b ys"
proof -
  have "last d \<noteq> a" "hd d \<noteq> b" using assms by (metis last_in_set, metis hd_in_set)
  moreover have "\<not> has_pair a b d" using assms(2) by (rule has_pair_absent)
  moreover have "has_pair a b (x # d @ ys) = has_pair a b ((x # d) @ ys)" by simp
  moreover have "has_pair a b (x # d) = has_pair a b ([x] @ d)" by simp
  ultimately show ?thesis using assms(1)
    unfolding has_pair_append by (auto simp del: append.simps)
qed

lemma digits_of_nonempty: "digits_of n \<noteq> []"
  by (subst digits_of.simps) simp

lemma digit_in: "n < 10 \<Longrightarrow> digit n \<in> set ''0123456789''"
  unfolding digit_def by (rule nth_mem) simp

lemma set_snoc_subset: "set xs \<subseteq> A \<Longrightarrow> x \<in> A \<Longrightarrow> set (xs @ [x]) \<subseteq> A"
  by simp

lemma set_single_subset: "x \<in> A \<Longrightarrow> set [x] \<subseteq> A"
  by simp

lemma set_digits_of: "set (digits_of n) \<subseteq> set ''0123456789''"
proof (induction n rule: digits_of.induct)
  case (1 n)
  show ?case
  proof (cases "n < 10")
    case True
    then have e: "digits_of n = [digit n]" by (subst digits_of.simps) simp
    show ?thesis unfolding e by (rule set_single_subset) (rule digit_in[OF True])
  next
    case False
    have "n mod 10 < 10" by simp
    then have d: "digit (n mod 10) \<in> set ''0123456789''" by (rule digit_in)
    have e: "digits_of n = digits_of (n div 10) @ [digit (n mod 10)]"
      using False by (subst digits_of.simps) simp
    show ?thesis unfolding e by (rule set_snoc_subset) (rule 1[OF False], rule d)
  qed
qed

lemma format_int_nonempty: "format_int i \<noteq> []"
  by (simp add: format_int_def digits_of_nonempty)

lemma set_cons_subset: "set xs \<subseteq> A \<Longrightarrow> set (x # xs) \<subseteq> insert x A"
  by auto

lemma set_format_int: "set (format_int i) \<subseteq> insert CHR ''-'' (set ''0123456789'')"
proof (cases "i < 0")
  case True
  then have e: "format_int i = CHR ''-'' # digits_of (nat (- i))" by (simp add: format_int_def)
  show ?thesis unfolding e by (rule set_cons_subset) (rule set_digits_of)
next
  case False
  then have e: "format_int i = digits_of (nat i)" by (simp add: format_int_def)
  show ?thesis unfolding e using set_digits_of by (rule subset_trans) (rule subset_insertI)
qed

lemma format_int_free:
  assumes "x \<notin> set ''-0123456789''"
  shows "x \<notin> set (format_int i)"
proof
  assume "x \<in> set (format_int i)"
  then have "x \<in> insert CHR ''-'' (set ''0123456789'')" using set_format_int by (rule rev_subsetD)
  then have "x \<in> set ''-0123456789''" by (simp only: list.set)
  with assms show False by (rule notE)
qed

lemma format_int_no_quote:
  "CHR 0x22 \<notin> set (format_int i)" "CHR ''Y'' \<notin> set (format_int i)" "CHR ''y'' \<notin> set (format_int i)"
  by (rule format_int_free, simp)+

lemmas skip_number =
  has_pair_skip[OF format_int_nonempty format_int_no_quote(1) format_int_no_quote(2)]
  has_pair_skip[OF format_int_nonempty format_int_no_quote(1) format_int_no_quote(3)]

lemma certification_clause_absent:
  assumes "\<not> required_certification c"
  shows "\<not> sublist certification_clause (eligibility_query c)"
proof
  assume "sublist certification_clause (eligibility_query c)"
  moreover have "has_pair (CHR 0x22) CHR ''Y'' certification_clause"
    unfolding certification_clause_def by simp
  ultimately have "has_pair (CHR 0x22) CHR ''Y'' (eligibility_query c)" by (rule has_pair_sublist)
  moreover have "\<not> has_pair (CHR 0x22) CHR ''Y'' (eligibility_query c)"
    using assms unfolding eligibility_query_def select_clause_def internship_clause_def
    by (simp add: skip_number)
  ultimately show False by (rule notE[rotated])
qed

lemma internship_clause_absent:
  assumes "\<not> required_internship c"
  shows "\<not> sublist internship_clause (eligibility_query c)"
proof
  assume "sublist internship_clause (eligibility_query c)"
  moreover have "has_pair (CHR 0x22) CHR ''y'' internship_clause"
    unfolding internship_clause_def by simp
  ultimately have "has_pair (CHR 0x22) CHR ''y'' (eligibility_query c)" by (rule has_pair_sublist)
  moreover have "\<not> has_pair (CHR 0x22) CHR ''y'' (eligibility_query c)"
    using assms unfolding eligibility_query_def select_clause_def certification_clause_def
    by (simp add: skip_number)
  ultimately show False by (rule notE[rotated])
qed

lemma sublist_skip: "sublist xs ys \<Longrightarrow> sublist xs (zs @ ys)"
  by (auto simp: sublist_def) (metis append.assoc)

lemma certification_clause_present:
  assumes "required_certification c"
  shows "sublist certification_clause (eligibility_query c)"
  unfolding eligibility_query_def certification_clause_def using assms
  by (simp only: if_True) ((rule sublist_append_rightI | rule sublist_skip)+)

lemma internship_clause_present:
  assumes "required_internship c"
  shows "sublist internship_clause (eligibility_query c)"
  unfolding eligibility_query_def internship_clause_def using assms
  by (simp only: if_True) ((rule sublist_append_rightI | rule sublist_skip)+)

lemma select_list_of_query:
  "select_list (eligibility_query c) = select_list (select_clause @ ''        '' @ ''FROM'')"
proof -
  have "\<exists>zs. eligibility_query c = select_clause @ ''        '' @ ''FROM'' @ zs"
    unfolding eligibility_query_def by simp
  then obtain zs where "eligibility_query c = select_clause @ ''        '' @ ''FROM'' @ zs" ..
  then show ?thesis using select_list_cut[OF select_in_select_clause] by (simp only:)
qed

subsection \<open>The sample data, evaluated\<close>

lemma sample_initial:
  "eligible_students sample_database initial_criteria = [row_ravi, row_asha]"
  by code_simp

lemma sample_certified:
  "eligible_students sample_database (initial_criteria\<lparr>required_certification := True\<rparr>) = [row_asha]"
  by code_simp

lemma sample_raised:
  "eligible_students sample_database
     (initial_criteria\<lparr>min_mock_interview_score := min_mock_interview_score initial_criteria + int 10\<rparr>)
   = [row_ravi]"
  by code_simp

subsection \<open>The claims about the filter\<close>

text \<open>
  C1. For every setting of the eleven thresholds (and of the two flags), every row of the
  filter result is the projection of a combination of one row of each of \<^verbatim>\<open>Students\<close>,
  \<^verbatim>\<open>Programming\<close>, \<^verbatim>\<open>SoftSkills\<close> and \<^verbatim>\<open>Placements\<close> that agree on the student
  identifier, and each of its eleven metrics is a number greater than or equal to its
  threshold.
\<close>

theorem filter_rows_joined_and_above_thresholds:
  assumes "r \<in> set (eligible_students db c)"
  shows "\<exists>s p ss pl.
      s \<in> set (Students db) \<and> p \<in> set (Programming db) \<and>
      ss \<in> set (SoftSkills db) \<and> pl \<in> set (Placements db) \<and>
      sql_eq (S_student_id s) (P_student_id p) \<and>
      sql_eq (S_student_id s) (SS_student_id ss) \<and>
      sql_eq (S_student_id s) (PL_student_id pl) \<and>
      r = select_columns (s, p, ss, pl) \<and>
      sql_ge (problem_solved r) (min_problem_solved c) \<and>
      sql_ge (assesment_completed r) (min_assesment_completed c) \<and>
      sql_ge (Mini_project r) (min_mini_project c) \<and>
      sql_ge (latest_project_score r) (min_latest_project_score c) \<and>
      sql_ge (communication r) (min_communication c) \<and>
      sql_ge (team_work r) (min_team_work c) \<and>
      sql_ge (presentation r) (min_presentation c) \<and>
      sql_ge (leadership r) (min_leadership c) \<and>
      sql_ge (Critical_thinking r) (min_critical_thinking c) \<and>
      sql_ge (interpersonal_skill r) (min_interpersonal_skill c) \<and>
      sql_ge (mock_interview_score r) (min_mock_interview_score c)"
proof -
  from assms obtain s p ss pl
    where j: "(s, p, ss, pl) \<in> set (from_clause db)"
      and w: "where_clause c (s, p, ss, pl)" and r: "r = select_columns (s, p, ss, pl)"
    by (rule eligible_studentsE)
  from j have "s \<in> set (Students db) \<and> p \<in> set (Programming db) \<and>
     ss \<in> set (SoftSkills db) \<and> pl \<in> set (Placements db) \<and>
     sql_eq (S_student_id s) (P_student_id p) \<and>
     sql_eq (S_student_id s) (SS_student_id ss) \<and> sql_eq (S_student_id s) (PL_student_id pl)"
    unfolding in_from_clause .
  moreover from w r have "r = select_columns (s, p, ss, pl) \<and>
      sql_ge (problem_solved r) (min_problem_solved c) \<and>
      sql_ge (assesment_completed r) (min_assesment_completed c) \<and>
      sql_ge (Mini_project r) (min_mini_project c) \<and>
      sql_ge (latest_project_score r) (min_latest_project_score c) \<and>
      sql_ge (communication r) (min_communication c) \<and>
      sql_ge (team_work r) (min_team_work c) \<and>
      sql_ge (presentation r) (min_presentation c) \<and>
      sql_ge (leadership r) (min_leadership c) \<and>
      sql_ge (Critical_thinking r) (min_critical_thinking c) \<and>
      sql_ge (interpersonal_skill r) (min_interpersonal_skill c) \<and>
      sql_ge (mock_interview_score r) (min_mock_interview_score c)"
    by simp
  ultimately show ?thesis by blast
qed

theorem filter_rows_joined_and_above_thresholds_witness:
  "row_asha \<in> set (eligible_students sample_database initial_criteria) \<and>
   (\<exists>p \<in> set (Programming sample_database). problem_solved row_asha = P_problem_solved p) \<and>
   sql_ge (mock_interview_score row_asha) (min_mock_interview_score initial_criteria)"
proof -
  have h: "row_asha \<in> set (eligible_students sample_database initial_criteria)"
    by (simp add: sample_initial)
  from filter_rows_joined_and_above_thresholds[OF h] obtain s p ss pl
    where "p \<in> set (Programming sample_database)" and "row_asha = select_columns (s, p, ss, pl)"
      and "sql_ge (mock_interview_score row_asha) (min_mock_interview_score initial_criteria)"
    by blast
  moreover from this(2)
  have "problem_solved row_asha = problem_solved (select_columns (s, p, ss, pl))"
    by (rule arg_cong)
  then have "problem_solved row_asha = P_problem_solved p" by simp
  ultimately show ?thesis using h by blast
qed

text \<open>
  C3. Take two positions \<open>i\<close> and \<open>j\<close> of the filter result. Both rows have a mock
  interview score and a latest project score (no \<^verbatim>\<open>NULL\<close>). If the mock interview score
  at \<open>i\<close> exceeds the one at \<open>j\<close>, row \<open>i\<close> comes before row \<open>j\<close>; if the two mock
  interview scores are equal and the latest project score at \<open>i\<close> is the greater one,
  row \<open>i\<close> comes before row \<open>j\<close>.
\<close>

theorem filter_rows_ordered:
  assumes "i < length (eligible_students db c)" and "j < length (eligible_students db c)"
  shows "\<exists>a b x y.
      mock_interview_score (eligible_students db c ! i) = Some a \<and>
      mock_interview_score (eligible_students db c ! j) = Some b \<and>
      latest_project_score (eligible_students db c ! i) = Some x \<and>
      latest_project_score (eligible_students db c ! j) = Some y \<and>
      (b < a \<longrightarrow> i < j) \<and> (a = b \<and> y < x \<longrightarrow> i < j)"
proof -
  define rows where "rows = order_by (filter (where_clause c) (from_clause db))"
  have res: "eligible_students db c = map select_columns rows"
    by (simp add: eligible_students_def rows_def)
  have len: "i < length rows" "j < length rows" using assms by (simp_all add: res)
  have inw: "where_clause c (rows ! k)" if "k < length rows" for k
  proof -
    have "rows ! k \<in> set rows" using that by simp
    then show ?thesis by (simp add: rows_def order_by_def)
  qed
  obtain s p ss pl where ri: "rows ! i = (s, p, ss, pl)" by (cases "rows ! i") auto
  obtain s' p' ss' pl' where rj: "rows ! j = (s', p', ss', pl')" by (cases "rows ! j") auto
  from inw[OF len(1)] obtain a x
    where ax: "PL_mock_interview_score pl = Some a" "P_latest_project_score p = Some x"
    unfolding ri by (auto simp: sql_ge_def split: option.splits)
  from inw[OF len(2)] obtain b y
    where bry: "PL_mock_interview_score pl' = Some b" "P_latest_project_score p' = Some y"
    unfolding rj by (auto simp: sql_ge_def split: option.splits)
  have srt: "sorted (map order_key rows)" unfolding rows_def by (rule sorted_order_by)
  have key: "order_key (rows ! j) \<le> order_key (rows ! i)" if "j \<le> i"
    using sorted_nth_mono[OF srt, of j i] that len by simp
  have "i < j" if "b < a \<or> (a = b \<and> y < x)"
  proof (rule ccontr)
    assume "\<not> i < j"
    then have "order_key (rows ! j) \<le> order_key (rows ! i)" by (intro key) simp
    then show False
      using that by (auto simp: ri rj ax bry desc_def less_eq_prod_def less_prod_def)
  qed
  then show ?thesis
    using len by (simp add: res ri rj ax bry)
qed

theorem filter_rows_ordered_witness:
  "(1::nat) < length (eligible_students sample_database initial_criteria) \<and>
   mock_interview_score (eligible_students sample_database initial_criteria ! 0) = Some 85 \<and>
   mock_interview_score (eligible_students sample_database initial_criteria ! 1) = Some 75 \<and>
   (\<exists>a b. mock_interview_score (eligible_students sample_database initial_criteria ! 0) = Some a \<and>
      mock_interview_score (eligible_students sample_database initial_criteria ! 1) = Some b \<and>
      (b < a \<longrightarrow> (0::nat) < 1))"
proof -
  have h0: "0 < length (eligible_students sample_database initial_criteria)"
    and h1: "1 < length (eligible_students sample_database initial_criteria)"
    by (simp_all add: sample_initial)
  have m: "mock_interview_score (eligible_students sample_database initial_criteria ! 0) = Some 85"
    "mock_interview_score (eligible_students sample_database initial_criteria ! 1) = Some 75"
    by (simp_all add: sample_initial row_ravi_def row_asha_def)
  from filter_rows_ordered[OF h0 h1] m h1 show ?thesis by blast
qed

text \<open>
  C4. Raising any single one of the eleven thresholds by any amount \<open>d\<close>, with all other
  inputs and the database kept, gives a filter result whose rows all occur in the
  original result.
\<close>

theorem raising_threshold_removes_rows:
  fixes d :: nat
  shows
  "set (eligible_students db (c\<lparr>min_problem_solved := min_problem_solved c + int d\<rparr>))
     \<subseteq> set (eligible_students db c) \<and>
   set (eligible_students db (c\<lparr>min_assesment_completed := min_assesment_completed c + int d\<rparr>))
     \<subseteq> set (eligible_students db c) \<and>
   set (eligible_students db (c\<lparr>min_mini_project := min_mini_project c + int d\<rparr>))
     \<subseteq> set (eligible_students db c) \<and>
   set (eligible_students db (c\<lparr>min_latest_project_score := min_latest_project_score c + int d\<rparr>))
     \<subseteq> set (eligible_students db c) \<and>
   set (eligible_students db (c\<lparr>min_communication := min_communication c + int d\<rparr>))
     \<subseteq> set (eligible_students db c) \<and>
   set (eligible_students db (c\<lparr>min_team_work := min_team_work c + int d\<rparr>))
     \<subseteq> set (eligible_students db c) \<and>
   set (eligible_students db (c\<lparr>min_presentation := min_presentation c + int d\<rparr>))
     \<subseteq> set (eligible_students db c) \<and>
   set (eligible_students db (c\<lparr>min_leadership := min_leadership c + int d\<rparr>))
     \<subseteq> set (eligible_students db c) \<and>
   set (eligible_students db (c\<lparr>min_critical_thinking := min_critical_thinking c + int d\<rparr>))
     \<subseteq> set (eligible_students db c) \<and>
   set (eligible_students db (c\<lparr>min_interpersonal_skill := min_interpersonal_skill c + int d\<rparr>))
     \<subseteq> set (eligible_students db c) \<and>
   set (eligible_students db (c\<lparr>min_mock_interview_score := min_mock_interview_score c + int d\<rparr>))
     \<subseteq> set (eligible_students db c)"
  by (intro conjI eligible_students_mono) simp_all

theorem raising_threshold_removes_rows_witness:
  "eligible_students sample_database
     (initial_criteria\<lparr>min_mock_interview_score := min_mock_interview_score initial_criteria + int 10\<rparr>)
     = [row_ravi] \<and>
   eligible_students sample_database initial_criteria = [row_ravi, row_asha] \<and>
   set (eligible_students sample_database
     (initial_criteria\<lparr>min_mock_interview_score := min_mock_interview_score initial_criteria + int 10\<rparr>))
     \<subseteq> set (eligible_students sample_database initial_criteria)"
  using raising_threshold_removes_rows[of sample_database initial_criteria 10]
    sample_raised sample_initial
  by blast

lemma sample_no_internship:
  "eligible_students sample_database (initial_criteria\<lparr>required_internship := False\<rparr>)
     = [row_ravi, row_asha]"
  by code_simp

text \<open>
  C2. When the internship flag is set, every row of the filter result has
  \<^verbatim>\<open>internship_complted\<close> equal to \<^verbatim>\<open>yes\<close>, whatever the certification flag; when the
  certification flag is set, every row has \<^verbatim>\<open>Certification\<close> equal to \<^verbatim>\<open>Yes\<close>. The text
  of each clause occurs in the built statement exactly when its flag is set, so with a
  flag off the clause is absent.
\<close>

theorem optional_clauses_follow_flags:
  "(required_internship c \<longrightarrow>
      (\<forall>r \<in> set (eligible_students db c). internship_complted r = Some ''yes'')) \<and>
   (required_certification c \<longrightarrow>
      (\<forall>r \<in> set (eligible_students db c). Certification r = Some ''Yes'')) \<and>
   (sublist internship_clause (eligibility_query c) \<longleftrightarrow> required_internship c) \<and>
   (sublist certification_clause (eligibility_query c) \<longleftrightarrow> required_certification c)"
  using internship_of_result[of _ db c] certification_of_result[of _ db c]
    internship_clause_absent[of c] internship_clause_present[of c]
    certification_clause_absent[of c] certification_clause_present[of c]
  by blast

theorem optional_clauses_follow_flags_witness:
  "required_internship initial_criteria \<and> \<not> required_certification initial_criteria \<and>
   row_ravi \<in> set (eligible_students sample_database initial_criteria) \<and>
   internship_complted row_ravi = Some ''yes'' \<and>
   sublist internship_clause (eligibility_query initial_criteria) \<and>
   \<not> sublist certification_clause (eligibility_query initial_criteria) \<and>
   required_certification (initial_criteria\<lparr>required_certification := True\<rparr>) \<and>
   row_asha \<in> set (eligible_students sample_database (initial_criteria\<lparr>required_certification := True\<rparr>)) \<and>
   Certification row_asha = Some ''Yes'' \<and>
   sublist certification_clause (eligibility_query (initial_criteria\<lparr>required_certification := True\<rparr>)) \<and>
   \<not> sublist internship_clause (eligibility_query (initial_criteria\<lparr>required_internship := False\<rparr>))"
proof -
  have f: "required_internship initial_criteria" "\<not> required_certification initial_criteria"
    "required_certification (initial_criteria\<lparr>required_certification := True\<rparr>)"
    "\<not> required_internship (initial_criteria\<lparr>required_internship := False\<rparr>)"
    by (simp_all add: initial_criteria_def checkbox_required_internship_def
        checkbox_required_certification_def)
  have m: "row_ravi \<in> set (eligible_students sample_database initial_criteria)"
    "row_asha \<in> set (eligible_students sample_database (initial_criteria\<lparr>required_certification := True\<rparr>))"
    by (simp_all add: sample_initial sample_certified)
  show ?thesis
    using f m
      optional_clauses_follow_flags[of initial_criteria sample_database]
      optional_clauses_follow_flags[of "initial_criteria\<lparr>required_certification := True\<rparr>" sample_database]
      optional_clauses_follow_flags[of "initial_criteria\<lparr>required_internship := False\<rparr>" sample_database]
    by blast
qed

section \<open>Properties of the statement text\<close>

lemma select_list_of_select_clause:
  "select_list (select_clause @ ''        '' @ ''FROM'') =
     [''student_id'', ''name'', ''age'', ''gender'', ''course_batch'', ''city'',
      ''problem_solved'', ''assesment_completed'', ''Mini_project'', ''latest_project_score'',
      ''Certification'', ''communication'', ''team_work'', ''presentation'', ''leadership'',
      ''Critical_thinking'', ''interpersonal_skill'', ''mock_interview_score'',
      ''internship_complted'', ''Placement_status'', ''Company_name'', ''placement_package'']"
  by code_simp

text \<open>
  C10. For every setting of the eleven thresholds and the two flags, the items between
  \<^verbatim>\<open>SELECT\<close> and \<^verbatim>\<open>FROM\<close> of the built statement name the same twenty-two columns, in the
  same order; they are the fields of a result row.
\<close>

theorem statement_projects_fixed_columns:
  "select_list (eligibility_query c) =
     [''student_id'', ''name'', ''age'', ''gender'', ''course_batch'', ''city'',
      ''problem_solved'', ''assesment_completed'', ''Mini_project'', ''latest_project_score'',
      ''Certification'', ''communication'', ''team_work'', ''presentation'', ''leadership'',
      ''Critical_thinking'', ''interpersonal_skill'', ''mock_interview_score'',
      ''internship_complted'', ''Placement_status'', ''Company_name'', ''placement_package''] \<and>
   length (select_list (eligibility_query c)) = 22"
  unfolding select_list_of_query select_list_of_select_clause by simp

section \<open>Properties of the catalog\<close>

lemma report_names_list:
  "report_names =
     [''Total Students'', ''Average Age of Students'', ''Students by Course Batch'',
      ''Average Programming Problems Solved'', ''Top 5 Students by Latest Project Score'',
      ''Average Soft Skills Score (Overall)'', ''Students with Internship Completed'',
      ''Distribution of Mock Interview Scores'', ''Students Ready for Placement'',
      ''Average Placement Package by Batch'',
      ''Students with High Mock Interview Scores and Placement Status'',
      ''Student with Highest Placement Package'', ''Count Students by City'']"
  unfolding report_names_def SQL_QUERIES_def by simp

lemma distinct_report_names: "distinct report_names"
  unfolding report_names_list by simp

lemma statements_nonempty: "\<forall>(report, stmt) \<in> set SQL_QUERIES. stmt \<noteq> []"
  unfolding SQL_QUERIES_def by simp

lemma lookup_query_SomeI:
  assumes "report \<in> set report_names"
  shows "\<exists>stmt. lookup_query report = Some stmt \<and> stmt \<noteq> []"
proof -
  from assms obtain stmt where m: "(report, stmt) \<in> set SQL_QUERIES"
    unfolding report_names_def by auto
  have "distinct (map fst SQL_QUERIES)" using distinct_report_names by (simp only: report_names_def)
  then have "lookup_query report = Some stmt" using m unfolding lookup_query_def by simp
  moreover have "stmt \<noteq> []" using statements_nonempty m by blast
  ultimately show ?thesis by blast
qed

text \<open>
  C6, as the claim states it: the catalog would define fourteen report names. It defines
  thirteen.
\<close>

theorem catalog_not_fourteen: "length report_names \<noteq> 14"
  unfolding report_names_list by simp

text \<open>
  C6, amended. The catalog defines exactly thirteen report names, all different, and
  the lookup of each of them returns a statement text that is not empty.
\<close>

theorem catalog_thirteen_reports:
  "length report_names = 13 \<and> distinct report_names \<and>
   (\<forall>report \<in> set report_names. \<exists>stmt. lookup_query report = Some stmt \<and> stmt \<noteq> [])"
proof (intro conjI ballI)
  show "length report_names = 13" unfolding report_names_list by simp
  show "distinct report_names" by (rule distinct_report_names)
  show "\<exists>stmt. lookup_query report = Some stmt \<and> stmt \<noteq> []" if "report \<in> set report_names" for report
    using that by (rule lookup_query_SomeI)
qed

theorem catalog_thirteen_reports_witness:
  "''Average Age of Students'' \<in> set report_names \<and>
   (\<exists>stmt. lookup_query ''Average Age of Students'' = Some stmt \<and> stmt \<noteq> [])"
proof -
  have "''Average Age of Students'' \<in> set report_names" unfolding report_names_list by simp
  with catalog_thirteen_reports show ?thesis by blast
qed

text \<open>
  The \<^verbatim>\<open>CASE\<close> expression of the histogram report at the values that C7 names.
\<close>

lemma score_range_boundaries:
  "score_range (Some 49) = ''0-49 (Poor)''"
  "score_range (Some 50) = ''50-69 (Average)''"
  "score_range (Some 90) = ''90-100 (Excellent)''"
  "score_range None = ''N/A''"
  "score_range (Some 101) = ''N/A''"
  "score_range (Some (- 1)) = ''N/A''"
  by (simp_all add: score_range_def between_def)

text \<open>
  C7. The text that the catalog hands to the engine for "Distribution of Mock Interview
  Scores" holds the character \<^verbatim>\<open>#\<close>: the two remarks of lines 112 and 121 stand inside the
  triple-quoted string. SQL has no remark that starts with \<^verbatim>\<open>#\<close>, and SQLite rejects the
  statement with \<^verbatim>\<open>unrecognized token: "#"\<close>, so this report is never computed.
\<close>

theorem histogram_statement_holds_hash:
  "\<exists>stmt. lookup_query ''Distribution of Mock Interview Scores'' = Some stmt \<and> CHR ''#'' \<in> set stmt"
  unfolding lookup_query_def SQL_QUERIES_def by simp

section \<open>Properties of the widgets\<close>

text \<open>
  C9. The eleven sliders have, in the order of the page, the ranges and initial values
  0 to 50 and 20, 0 to 10 and 3, 0 to 5 and 1, 0 to 100 and 60, 0 to 100 and 65,
  0 to 50 and 25, 0 to 10 and 5, 0 to 5 and 2, 0 to 5 and 2, 0 to 100 and 60,
  0 to 100 and 70; each initial value lies in its range; the certification box starts
  unticked and the internship box ticked.
\<close>

theorem slider_ranges_and_defaults:
  "map (\<lambda>w. (min_value w, max_value w, initial_value w)) threshold_sliders =
     [(0, 50, 20), (0, 10, 3), (0, 5, 1), (0, 100, 60), (0, 100, 65), (0, 50, 25),
      (0, 10, 5), (0, 5, 2), (0, 5, 2), (0, 100, 60), (0, 100, 70)] \<and>
   list_all (\<lambda>w. offers w (initial_value w)) threshold_sliders \<and>
   checkbox_value checkbox_required_certification = False \<and>
   checkbox_value checkbox_required_internship = True"
  by (simp add: threshold_sliders_def offers_def slider_min_problem_solved_def
      slider_min_assesment_completed_def slider_min_mini_project_def
      slider_min_latest_project_score_def slider_min_communication_def
      slider_min_team_work_def slider_min_presentation_def slider_min_leadership_def
      slider_min_critical_thinking_def slider_min_interpersonal_skill_def
      slider_min_mock_interview_score_def checkbox_required_certification_def
      checkbox_required_internship_def)

section \<open>Properties of the executor\<close>

lemma execute_query_connected:
  assumes "get_connection be st = (Returned cn, self', ui')"
  shows "execute_query be query params st =
     (case read_sql_query be query cn (if truthy params then params else None) of
        Inr df \<Rightarrow> (Returned df, self', ui')
      | Inl (DatabaseError e) \<Rightarrow>
          (Returned empty_dataframe, self', ui' @ [StError (''Error executing query: '' @ e)])
      | Inl (OtherException e) \<Rightarrow>
          (Returned empty_dataframe, self', ui' @ [StError (''An unexpected error occurred: '' @ e)]))"
  unfolding execute_query_def assms by (cases "truthy params") simp_all

lemma execute_query_stopped:
  assumes "get_connection be st = (Stopped, self', ui')"
  shows "execute_query be query params st = (Stopped, self', ui')"
  unfolding execute_query_def assms by simp

text \<open>
  C5, as the claim states it: the executor would always come back to its caller. On a
  manager without a connection, when \<^verbatim>\<open>sqlite3.connect\<close> fails, \<^verbatim>\<open>get_connection\<close> reports
  the error and calls \<^verbatim>\<open>st.stop()\<close>; that call is outside the \<^verbatim>\<open>try\<close> of
  \<^verbatim>\<open>execute_query\<close>, so the executor does not return.
\<close>

theorem executor_stops_when_connection_fails:
  "fst (execute_query closed_backend ''SELECT COUNT(*) FROM Students;'' None fresh_manager) = Stopped"
  by (simp add: execute_query_def get_connection_def closed_backend_def fresh_manager_def)

text \<open>
  C5, amended. Whenever \<^verbatim>\<open>get_connection\<close> yields a connection (a cached one, or a new
  one because connecting succeeds), the executor returns to its caller for every
  statement and every parameter list: with the data frame of the engine and no new
  message when the engine succeeds, and with the empty data frame and one new error
  message when the engine raises a database error or any other exception.
\<close>

theorem executor_contains_query_failures:
  assumes "get_connection be st = (Returned cn, self', ui')"
  shows "\<exists>df ui''. execute_query be query params st = (Returned df, self', ui'') \<and>
     (case read_sql_query be query cn (if truthy params then params else None) of
        Inr result \<Rightarrow> df = result \<and> ui'' = ui'
      | Inl e \<Rightarrow> df = empty_dataframe \<and> empty df \<and> (\<exists>msg. ui'' = ui' @ [StError msg]))"
  unfolding execute_query_connected[OF assms]
  by (auto simp: empty_def empty_dataframe_def split: sum.splits raised.splits)

theorem executor_contains_query_failures_witness:
  "get_connection sample_backend fresh_manager =
     (Returned 7, \<lparr>db_name = ''placement_data.db'', conn = Some 7\<rparr>,
      [StSuccess ''Successfully connected to database: placement_data.db'']) \<and>
   execute_query sample_backend ''SELECT # FROM'' None fresh_manager =
     (Returned empty_dataframe, \<lparr>db_name = ''placement_data.db'', conn = Some 7\<rparr>,
      [StSuccess ''Successfully connected to database: placement_data.db'',
       StError ''Error executing query: unrecognized token''])"
proof -
  have g: "get_connection sample_backend fresh_manager =
     (Returned 7, \<lparr>db_name = ''placement_data.db'', conn = Some 7\<rparr>,
      [StSuccess ''Successfully connected to database: placement_data.db''])"
    by (simp add: get_connection_def sample_backend_def fresh_manager_def)
  have r: "read_sql_query sample_backend ''SELECT # FROM'' 7 (if truthy None then None else None)
     = Inl (DatabaseError ''unrecognized token'')"
    by (simp add: sample_backend_def)
  from executor_contains_query_failures[OF g, of "''SELECT # FROM''" None]
  obtain df ui'' where e: "execute_query sample_backend ''SELECT # FROM'' None fresh_manager =
      (Returned df, \<lparr>db_name = ''placement_data.db'', conn = Some 7\<rparr>, ui'')"
    and d: "df = empty_dataframe" unfolding r by auto
  have "execute_query sample_backend ''SELECT # FROM'' None fresh_manager =
     (Returned empty_dataframe, \<lparr>db_name = ''placement_data.db'', conn = Some 7\<rparr>,
      [StSuccess ''Successfully connected to database: placement_data.db'',
       StError ''Error executing query: unrecognized token''])"
    unfolding execute_query_connected[OF g] r by simp
  with g e d show ?thesis by simp
qed

end
